theory Spec2Isabelle
  imports Main
begin

section \<open>Data model\<close>

text \<open>
  The package \<^verbatim>\<open>kubeconfig\<close> works on the \<^verbatim>\<open>clientcmdapi.Config\<close> document of client-go:
  three Go maps keyed by name, and the name of the current context. A Go map is modelled
  as a partial function from keys to values. The maps hold pointers; no function of the
  package writes through such a pointer (entries are moved, replaced or copied as a whole),
  so a map value stands for the object the pointer refers to. The value types of
  \<^verbatim>\<open>Clusters\<close> and \<^verbatim>\<open>AuthInfos\<close> are never inspected and stay type parameters.
  The documents that reach the functions below are built by \<^verbatim>\<open>clientcmd.Load\<close> and
  \<^verbatim>\<open>clientcmd.LoadFromFile\<close>, which allocate all three maps; a \<^verbatim>\<open>nil\<close> map, on which a Go
  write panics, is outside the model.
\<close>

type_synonym bytes = "char list"

record 'x Context =
  LocationOfOrigin :: string
  Cluster :: string
  AuthInfo :: string
  Namespace :: string
  Extensions :: "string \<rightharpoonup> 'x"

record ('c, 'a, 'x) Config =
  Clusters :: "string \<rightharpoonup> 'c"
  AuthInfos :: "string \<rightharpoonup> 'a"
  Contexts :: "string \<rightharpoonup> 'x Context"
  CurrentContext :: string

text \<open>
  \<^verbatim>\<open>&clientcmdapi.Context{Cluster: c, AuthInfo: a}\<close>: a fresh context whose other fields
  have Go's zero values.
\<close>

definition newContext :: "string \<Rightarrow> string \<Rightarrow> 'x Context" where
  "newContext c a =
     \<lparr>LocationOfOrigin = [], Cluster = c, AuthInfo = a, Namespace = [], Extensions = Map.empty\<rparr>"

text \<open>\<^verbatim>\<open>clientcmdapi.NewConfig()\<close>: the document with three empty maps.\<close>

definition NewConfig :: "('c, 'a, 'x) Config" where
  "NewConfig = \<lparr>Clusters = Map.empty, AuthInfos = Map.empty, Contexts = Map.empty,
     CurrentContext = []\<rparr>"

text \<open>
  The name generators of package \<^verbatim>\<open>certs\<close> and the lookup functions of package
  \<^verbatim>\<open>util\<close> are called by the code below but defined elsewhere; they are parameters of the
  model, collected in one record per package.
\<close>

record certs =
  GenerateClusterName :: "string \<Rightarrow> string"
  GenerateAuthInfoAdminName :: "string \<Rightarrow> string"
  GenerateContextName :: "string \<Rightarrow> string"

record util =
  GenerateNamespaceFromControlPlaneName :: "string \<Rightarrow> string"
  GetKubeconfSecretNameByControlPlaneType :: "string \<Rightarrow> string"
  GetKubeconfSecretKeyNameByControlPlaneType :: "string \<Rightarrow> string"

text \<open>
  Modelled from the spec: the constants \<^verbatim>\<open>ControlPlaneTypeOCM\<close> and
  \<^verbatim>\<open>ControlPlaneTypeVCluster\<close> of package \<^verbatim>\<open>tenancyv1alpha1\<close> are declared outside the
  files at hand. The spec names the two known types OCM and VCluster; the two are distinct
  strings (they label two cases of one \<^verbatim>\<open>switch\<close>), and nothing else about their spelling
  is used.
\<close>

definition ControlPlaneTypeOCM :: string where
  "ControlPlaneTypeOCM = ''ocm''"

definition ControlPlaneTypeVCluster :: string where
  "ControlPlaneTypeVCluster = ''vcluster''"

text \<open>A \<^verbatim>\<open>v1.Secret\<close>, as far as the package reads it: its name and its keyed payloads.\<close>

record Secret =
  Name :: string
  Data :: "string \<rightharpoonup> bytes"


section \<open>Renaming keys\<close>

text \<open>
  \<^verbatim>\<open>renameKey\<close> switches on the dynamic type of the map and runs the same three lines for
  each of the three map types of a \<^verbatim>\<open>Config\<close>; its \<^verbatim>\<open>default\<close> branch (any other type) does
  nothing and is never reached from \<^verbatim>\<open>adjustConfigKeys\<close>. The model is one polymorphic
  function. The Go function updates the map in place and returns it; the model returns
  the updated map.
\<close>

definition renameKey :: "(string \<rightharpoonup> 'v) \<Rightarrow> string \<Rightarrow> string \<Rightarrow> (string \<rightharpoonup> 'v)" where
  "renameKey m oldKey newKey =
     (case m oldKey of
        Some v \<Rightarrow> (m(oldKey := None))(newKey \<mapsto> v)
      | None \<Rightarrow> m)"

text \<open>
  \<^verbatim>\<open>adjustConfigKeys\<close> updates the document behind its pointer argument; the model returns
  the updated document. The \<^verbatim>\<open>switch\<close> takes the first case that matches.
\<close>

definition adjustConfigKeys ::
  "certs \<Rightarrow> ('c, 'a, 'x) Config \<Rightarrow> string \<Rightarrow> string \<Rightarrow> ('c, 'a, 'x) Config" where
  "adjustConfigKeys gen config cpName controlPlaneType =
     (if controlPlaneType = ControlPlaneTypeOCM then
        \<lparr>Clusters = renameKey (Clusters config) ''multicluster-controlplane''
                      (GenerateClusterName gen cpName),
         AuthInfos = renameKey (AuthInfos config) ''user''
                       (GenerateAuthInfoAdminName gen cpName),
         Contexts = (renameKey (Contexts config) ''multicluster-controlplane''
                       (GenerateContextName gen cpName))
                    (GenerateContextName gen cpName \<mapsto>
                       newContext (GenerateClusterName gen cpName)
                         (GenerateAuthInfoAdminName gen cpName)),
         CurrentContext = GenerateContextName gen cpName\<rparr>
      else if controlPlaneType = ControlPlaneTypeVCluster then
        \<lparr>Clusters = renameKey (Clusters config) ''my-vcluster''
                      (GenerateClusterName gen cpName),
         AuthInfos = renameKey (AuthInfos config) ''my-vcluster''
                       (GenerateAuthInfoAdminName gen cpName),
         Contexts = (renameKey (Contexts config) ''my-vcluster''
                       (GenerateContextName gen cpName))
                    (GenerateContextName gen cpName \<mapsto>
                       newContext (GenerateClusterName gen cpName)
                         (GenerateAuthInfoAdminName gen cpName)),
         CurrentContext = GenerateContextName gen cpName\<rparr>
      else config)"

text \<open>
  The generic keys that \<^verbatim>\<open>adjustConfigKeys\<close> passes to \<^verbatim>\<open>renameKey\<close> for a known type, read
  off its two cases: for the clusters, the auth infos and the contexts.
\<close>

definition genericClusterKey :: "string \<Rightarrow> string" where
  "genericClusterKey controlPlaneType =
     (if controlPlaneType = ControlPlaneTypeOCM then ''multicluster-controlplane''
      else ''my-vcluster'')"

definition genericAuthInfoKey :: "string \<Rightarrow> string" where
  "genericAuthInfoKey controlPlaneType =
     (if controlPlaneType = ControlPlaneTypeOCM then ''user'' else ''my-vcluster'')"

definition genericContextKey :: "string \<Rightarrow> string" where
  "genericContextKey controlPlaneType =
     (if controlPlaneType = ControlPlaneTypeOCM then ''multicluster-controlplane''
      else ''my-vcluster'')"


section \<open>Loading, merging and writing back\<close>

text \<open>
  \<^verbatim>\<open>loadControlPlaneKubeconfig\<close> asks the API server for the secret of the control plane and
  decodes one of its payloads. The two calls that leave the package are parameters:
  \<open>Get namespace name\<close> is \<^verbatim>\<open>client.CoreV1().Secrets(namespace).Get\<close>, and \<open>Load\<close> is the
  decoder \<^verbatim>\<open>clientcmd.Load\<close>. A Go error is a value of the type parameter \<open>'e\<close>. Reading
  a key that a Go map does not hold gives the zero value, here the empty byte slice.
\<close>

definition loadControlPlaneKubeconfig ::
  "util \<Rightarrow> (string \<Rightarrow> string \<Rightarrow> 'e + Secret) \<Rightarrow> (bytes \<Rightarrow> 'e + ('c, 'a, 'x) Config) \<Rightarrow>
   string \<Rightarrow> string \<Rightarrow> 'e + ('c, 'a, 'x) Config" where
  "loadControlPlaneKubeconfig u Get Load name controlPlaneType =
     (let namespace = GenerateNamespaceFromControlPlaneName u name in
      case Get namespace (GetKubeconfSecretNameByControlPlaneType u controlPlaneType) of
        Inl err \<Rightarrow> Inl err
      | Inr ks \<Rightarrow>
          (let key = GetKubeconfSecretKeyNameByControlPlaneType u controlPlaneType in
           Load (case Data ks key of Some b \<Rightarrow> b | None \<Rightarrow> [])))"

text \<open>
  \<^verbatim>\<open>clientcmd.Load\<close> of client-go starts from \<^verbatim>\<open>NewConfig()\<close> and returns it, with no error,
  when the input has length zero; any other input goes to the codec, here \<open>decode\<close>.
\<close>

definition clientcmd_Load ::
  "(bytes \<Rightarrow> 'e + ('c, 'a, 'x) Config) \<Rightarrow> bytes \<Rightarrow> 'e + ('c, 'a, 'x) Config" where
  "clientcmd_Load decode data = (if data = [] then Inr NewConfig else decode data)"

text \<open>
  Modelled from the spec: \<^verbatim>\<open>merge\<close> is a function of this package whose file is not at hand.
  The spec gives its contract: every key of each of the three source maps is put into the
  matching destination map, replacing an entry of the same key; the other destination
  entries stay; the destination's current context becomes the source's. It names no way
  for the merge to fail. The Go function updates the destination in place and returns an
  error; the model returns the error (none) and the updated destination.
\<close>

definition merge ::
  "('c, 'a, 'x) Config \<Rightarrow> ('c, 'a, 'x) Config \<Rightarrow> 'e option \<times> ('c, 'a, 'x) Config" where
  "merge existing new =
     (None,
      \<lparr>Clusters = Clusters existing ++ Clusters new,
       AuthInfos = AuthInfos existing ++ AuthInfos new,
       Contexts = Contexts existing ++ Contexts new,
       CurrentContext = CurrentContext new\<rparr>)"

text \<open>
  \<^verbatim>\<open>LoadAndMerge\<close> runs the steps in order and returns at the first error. The backing file
  of the aggregate document is a state \<open>fs\<close> of type \<open>'f\<close>: \<open>LoadFromFile\<close> reads it
  (\<^verbatim>\<open>LoadKubeconfig\<close>), \<open>WriteToFile\<close> replaces it and may fail (\<^verbatim>\<open>WriteKubeconfig\<close>). The merge
  routine is a parameter \<open>mrg\<close> that returns its error and the destination as it left it.
  The result is the error returned to the caller (\<open>None\<close> for \<^verbatim>\<open>nil\<close>) and the state of the
  backing file afterwards.
\<close>

definition LoadAndMerge ::
  "util \<Rightarrow> certs \<Rightarrow> (string \<Rightarrow> string \<Rightarrow> 'e + Secret) \<Rightarrow> (bytes \<Rightarrow> 'e + ('c, 'a, 'x) Config) \<Rightarrow>
   ('f \<Rightarrow> 'e + ('c, 'a, 'x) Config) \<Rightarrow>
   (('c, 'a, 'x) Config \<Rightarrow> ('c, 'a, 'x) Config \<Rightarrow> 'e option \<times> ('c, 'a, 'x) Config) \<Rightarrow>
   (('c, 'a, 'x) Config \<Rightarrow> 'f \<Rightarrow> 'e option \<times> 'f) \<Rightarrow>
   string \<Rightarrow> string \<Rightarrow> 'f \<Rightarrow> 'e option \<times> 'f" where
  "LoadAndMerge u gen Get Load LoadFromFile mrg WriteToFile name controlPlaneType fs =
     (case loadControlPlaneKubeconfig u Get Load name controlPlaneType of
        Inl err \<Rightarrow> (Some err, fs)
      | Inr cpKonfig0 \<Rightarrow>
          (let cpKonfig = adjustConfigKeys gen cpKonfig0 name controlPlaneType in
           case LoadFromFile fs of
             Inl err \<Rightarrow> (Some err, fs)
           | Inr konfig \<Rightarrow>
               (case mrg konfig cpKonfig of
                  (Some err, _) \<Rightarrow> (Some err, fs)
                | (None, konfig') \<Rightarrow> WriteToFile konfig' fs)))"

text \<open>
  \<^verbatim>\<open>LoadAndMergeNoWrite\<close> merges into a document supplied by the caller and writes nothing.
  The result is the error and the caller's document afterwards.
\<close>

definition LoadAndMergeNoWrite ::
  "util \<Rightarrow> certs \<Rightarrow> (string \<Rightarrow> string \<Rightarrow> 'e + Secret) \<Rightarrow> (bytes \<Rightarrow> 'e + ('c, 'a, 'x) Config) \<Rightarrow>
   (('c, 'a, 'x) Config \<Rightarrow> ('c, 'a, 'x) Config \<Rightarrow> 'e option \<times> ('c, 'a, 'x) Config) \<Rightarrow>
   string \<Rightarrow> string \<Rightarrow> ('c, 'a, 'x) Config \<Rightarrow> 'e option \<times> ('c, 'a, 'x) Config" where
  "LoadAndMergeNoWrite u gen Get Load mrg name controlPlaneType konfig =
     (case loadControlPlaneKubeconfig u Get Load name controlPlaneType of
        Inl err \<Rightarrow> (Some err, konfig)
      | Inr cpKonfig0 \<Rightarrow>
          mrg konfig (adjustConfigKeys gen cpKonfig0 name controlPlaneType))"


section \<open>Concrete instances\<close>

text \<open>
  One instance of every parameter of the model, to run the functions on concrete input:
  name generators and lookup functions, a secret store with the secrets of three control
  planes, a codec, a backing file and two merge and write routines.
\<close>

definition sample_cluster_name :: "string \<Rightarrow> string" where
  "sample_cluster_name cpName = cpName @ ''-cluster''"

definition sample_admin_name :: "string \<Rightarrow> string" where
  "sample_admin_name cpName = cpName @ ''-admin''"

definition sample_context_name :: "string \<Rightarrow> string" where
  "sample_context_name cpName = cpName"

definition sample_certs :: certs where
  "sample_certs =
     \<lparr>GenerateClusterName = sample_cluster_name,
      GenerateAuthInfoAdminName = sample_admin_name,
      GenerateContextName = sample_context_name\<rparr>"

definition sample_namespace :: "string \<Rightarrow> string" where
  "sample_namespace cpName = cpName @ ''-system''"

definition sample_secret_name :: "string \<Rightarrow> string" where
  "sample_secret_name controlPlaneType =
     (if controlPlaneType = ControlPlaneTypeVCluster then ''vc-vcluster''
      else ''admin-kubeconfig'')"

definition sample_secret_key :: "string \<Rightarrow> string" where
  "sample_secret_key controlPlaneType =
     (if controlPlaneType = ControlPlaneTypeVCluster then ''config'' else ''kubeconfig'')"

definition sample_util :: util where
  "sample_util =
     \<lparr>GenerateNamespaceFromControlPlaneName = sample_namespace,
      GetKubeconfSecretNameByControlPlaneType = sample_secret_name,
      GetKubeconfSecretKeyNameByControlPlaneType = sample_secret_key\<rparr>"

text \<open>The document a fresh vcluster hands out, under its generic names.\<close>

definition sample_doc :: "(nat, nat, unit) Config" where
  "sample_doc =
     \<lparr>Clusters = [''my-vcluster'' \<mapsto> 1],
      AuthInfos = [''my-vcluster'' \<mapsto> 2],
      Contexts = [''my-vcluster'' \<mapsto> newContext ''my-vcluster'' ''my-vcluster''],
      CurrentContext = ''my-vcluster''\<rparr>"

text \<open>A codec that accepts one payload and rejects every other.\<close>

definition sample_decode :: "bytes \<Rightarrow> string + (nat, nat, unit) Config" where
  "sample_decode data = (if data = ''doc'' then Inr sample_doc else Inl ''decode error'')"

text \<open>
  The secrets of the store: control plane \<open>cp1\<close> has a well-formed payload, \<open>cp2\<close> a
  malformed one, and the secret of \<open>cp3\<close> lacks the payload key. No other secret exists.
\<close>

definition secret_cp1 :: Secret where
  "secret_cp1 = \<lparr>Name = ''vc-vcluster'', Data = [''config'' \<mapsto> ''doc'']\<rparr>"

definition secret_cp2 :: Secret where
  "secret_cp2 = \<lparr>Name = ''vc-vcluster'', Data = [''config'' \<mapsto> ''garbage'']\<rparr>"

definition secret_cp3 :: Secret where
  "secret_cp3 = \<lparr>Name = ''vc-vcluster'', Data = [''token'' \<mapsto> ''abc'']\<rparr>"

definition sample_Get :: "string \<Rightarrow> string \<Rightarrow> string + Secret" where
  "sample_Get namespace name =
     (if namespace = ''cp1-system'' \<and> name = ''vc-vcluster'' then Inr secret_cp1
      else if namespace = ''cp2-system'' \<and> name = ''vc-vcluster'' then Inr secret_cp2
      else if namespace = ''cp3-system'' \<and> name = ''vc-vcluster'' then Inr secret_cp3
      else Inl ''not found'')"

text \<open>A backing file is its content; only the content \<open>aggregate\<close> can be read.\<close>

definition sample_aggregate :: "(nat, nat, unit) Config" where
  "sample_aggregate =
     \<lparr>Clusters = [''k1'' \<mapsto> 7],
      AuthInfos = [''k1'' \<mapsto> 8],
      Contexts = [''ctx-D'' \<mapsto> newContext ''k1'' ''k1''],
      CurrentContext = ''ctx-D''\<rparr>"

definition sample_LoadFromFile :: "bytes \<Rightarrow> string + (nat, nat, unit) Config" where
  "sample_LoadFromFile fs =
     (if fs = ''aggregate'' then Inr sample_aggregate else Inl ''no such file'')"

definition sample_WriteToFile :: "(nat, nat, unit) Config \<Rightarrow> bytes \<Rightarrow> string option \<times> bytes" where
  "sample_WriteToFile config fs = (None, ''written'')"

definition failing_merge ::
  "(nat, nat, unit) Config \<Rightarrow> (nat, nat, unit) Config \<Rightarrow> string option \<times> (nat, nat, unit) Config" where
  "failing_merge existing new = (Some ''merge failed'', existing)"

text \<open>A source document for the merge, next to \<open>sample_aggregate\<close> as its destination.\<close>

definition sample_source :: "(nat, nat, unit) Config" where
  "sample_source =
     \<lparr>Clusters = [''k2'' \<mapsto> 3],
      AuthInfos = [''k1'' \<mapsto> 4],
      Contexts = [''ctx-S'' \<mapsto> newContext ''k2'' ''k1''],
      CurrentContext = ''ctx-S''\<rparr>"

text \<open>A map that holds the generic key and the target key of a rename.\<close>

definition sample_clash :: "string \<rightharpoonup> nat" where
  "sample_clash = [''my-vcluster'' \<mapsto> 1, ''cp1-cluster'' \<mapsto> 2, ''other'' \<mapsto> 3]"

lemmas sample_certs_simps =
  sample_certs_def sample_cluster_name_def sample_admin_name_def sample_context_name_def

lemmas sample_util_simps =
  sample_util_def sample_namespace_def sample_secret_name_def sample_secret_key_def

lemmas ControlPlaneType_simps = ControlPlaneTypeOCM_def ControlPlaneTypeVCluster_def


section \<open>Properties of renameKey\<close>

lemma renameKey_absent: "m oldKey = None \<Longrightarrow> renameKey m oldKey newKey = m"
  by (simp add: renameKey_def)

lemma renameKey_present:
  "m oldKey = Some v \<Longrightarrow> renameKey m oldKey newKey = (m(oldKey := None))(newKey \<mapsto> v)"
  by (simp add: renameKey_def)

lemma renameKey_same: "renameKey m k k = m"
  by (auto simp: renameKey_def split: option.splits)

lemma renameKey_old_gone:
  "oldKey \<noteq> newKey \<Longrightarrow> renameKey m oldKey newKey oldKey = None"
  by (simp add: renameKey_def split: option.splits)

lemma renameKey_idem:
  "renameKey (renameKey m oldKey newKey) oldKey newKey = renameKey m oldKey newKey"
proof (cases "oldKey = newKey")
  case True
  then show ?thesis by (simp add: renameKey_same)
next
  case False
  then have "renameKey m oldKey newKey oldKey = None"
    by (rule renameKey_old_gone)
  then show ?thesis by (rule renameKey_absent)
qed

lemma renameKey_upd_idem:
  "renameKey ((renameKey m oldKey newKey)(newKey \<mapsto> c)) oldKey newKey =
   (renameKey m oldKey newKey)(newKey \<mapsto> c)"
proof (cases "oldKey = newKey")
  case True
  then show ?thesis by (simp add: renameKey_same)
next
  case False
  then have "((renameKey m oldKey newKey)(newKey \<mapsto> c)) oldKey = None"
    by (simp add: renameKey_old_gone)
  then show ?thesis by (rule renameKey_absent)
qed


section \<open>The remap on the concrete scenario\<close>

text \<open>
  C1. Control plane \<open>cp1\<close> of type VCluster; the input document holds one cluster \<open>C\<close>, one
  auth info \<open>A\<close> and one context, all three under the key \<open>my-vcluster\<close>, the context
  refers to cluster and auth info \<open>my-vcluster\<close>, and the current context is \<open>my-vcluster\<close>.
  The remapped document holds \<open>C\<close> under the generated cluster name, \<open>A\<close> under the
  generated auth info name, one context under the generated context name that refers to
  the two generated names, and the generated context name as current context. The key
  \<open>my-vcluster\<close> is absent from all three maps; for this last part the three names
  generated for \<open>cp1\<close> are taken to differ from \<open>my-vcluster\<close>.
\<close>

theorem adjustConfigKeys_vcluster_scenario:
  assumes "GenerateClusterName gen ''cp1'' \<noteq> ''my-vcluster''"
    and "GenerateAuthInfoAdminName gen ''cp1'' \<noteq> ''my-vcluster''"
    and "GenerateContextName gen ''cp1'' \<noteq> ''my-vcluster''"
  shows
    "(let r = adjustConfigKeys gen
         \<lparr>Clusters = [''my-vcluster'' \<mapsto> C],
          AuthInfos = [''my-vcluster'' \<mapsto> A],
          Contexts = [''my-vcluster'' \<mapsto>
            ctx\<lparr>Cluster := ''my-vcluster'', AuthInfo := ''my-vcluster''\<rparr>],
          CurrentContext = ''my-vcluster''\<rparr> ''cp1'' ControlPlaneTypeVCluster
      in r = \<lparr>Clusters = [GenerateClusterName gen ''cp1'' \<mapsto> C],
               AuthInfos = [GenerateAuthInfoAdminName gen ''cp1'' \<mapsto> A],
               Contexts = [GenerateContextName gen ''cp1'' \<mapsto>
                 \<lparr>LocationOfOrigin = [], Cluster = GenerateClusterName gen ''cp1'',
                  AuthInfo = GenerateAuthInfoAdminName gen ''cp1'', Namespace = [],
                  Extensions = Map.empty\<rparr>],
               CurrentContext = GenerateContextName gen ''cp1''\<rparr>
         \<and> Clusters r ''my-vcluster'' = None
         \<and> AuthInfos r ''my-vcluster'' = None
         \<and> Contexts r ''my-vcluster'' = None)"
  using assms
  by (simp add: adjustConfigKeys_def ControlPlaneType_simps renameKey_def newContext_def)

theorem adjustConfigKeys_vcluster_scenario_witness:
  "adjustConfigKeys sample_certs
     \<lparr>Clusters = [''my-vcluster'' \<mapsto> (1::nat)],
      AuthInfos = [''my-vcluster'' \<mapsto> (2::nat)],
      Contexts = [''my-vcluster'' \<mapsto>
        \<lparr>LocationOfOrigin = ''/tmp/vc'', Cluster = ''my-vcluster'', AuthInfo = ''my-vcluster'',
         Namespace = ''default'', Extensions = (Map.empty :: string \<rightharpoonup> unit)\<rparr>],
      CurrentContext = ''my-vcluster''\<rparr> ''cp1'' ControlPlaneTypeVCluster =
   \<lparr>Clusters = [''cp1-cluster'' \<mapsto> 1],
    AuthInfos = [''cp1-admin'' \<mapsto> 2],
    Contexts = [''cp1'' \<mapsto>
      \<lparr>LocationOfOrigin = [], Cluster = ''cp1-cluster'', AuthInfo = ''cp1-admin'',
       Namespace = [], Extensions = Map.empty\<rparr>],
    CurrentContext = ''cp1''\<rparr>"
  using adjustConfigKeys_vcluster_scenario
    [of sample_certs "1::nat" "2::nat"
      "\<lparr>LocationOfOrigin = ''/tmp/vc'', Cluster = [], AuthInfo = [],
        Namespace = ''default'', Extensions = (Map.empty :: string \<rightharpoonup> unit)\<rparr>"]
  by (simp add: sample_certs_simps Let_def)


section \<open>General properties of the remap\<close>

text \<open>
  C2. For the two known control-plane types, every control-plane name and every document,
  applying \<^verbatim>\<open>adjustConfigKeys\<close> twice gives the same document as applying it once.
\<close>

theorem adjustConfigKeys_idempotent:
  assumes "controlPlaneType = ControlPlaneTypeOCM \<or> controlPlaneType = ControlPlaneTypeVCluster"
  shows "adjustConfigKeys gen (adjustConfigKeys gen config cpName controlPlaneType)
           cpName controlPlaneType =
         adjustConfigKeys gen config cpName controlPlaneType"
  using assms
  by (auto simp: adjustConfigKeys_def renameKey_idem renameKey_upd_idem)

theorem adjustConfigKeys_idempotent_witness:
  "adjustConfigKeys sample_certs
     (adjustConfigKeys sample_certs sample_doc ''cp1'' ControlPlaneTypeOCM)
     ''cp1'' ControlPlaneTypeOCM =
   adjustConfigKeys sample_certs sample_doc ''cp1'' ControlPlaneTypeOCM"
  using adjustConfigKeys_idempotent
    [where controlPlaneType = ControlPlaneTypeOCM and gen = sample_certs
       and config = sample_doc and cpName = "''cp1''"]
  by simp

text \<open>
  C3. For the two known control-plane types and every control-plane name,
  \<^verbatim>\<open>adjustConfigKeys\<close> sets the current context to the generated context name and stores at
  that key a context whose cluster is the generated cluster name and whose auth info is
  the generated auth info name, whatever the input document holds.
\<close>

theorem adjustConfigKeys_upserts_context:
  assumes "controlPlaneType = ControlPlaneTypeOCM \<or> controlPlaneType = ControlPlaneTypeVCluster"
  shows
    "(let r = adjustConfigKeys gen config cpName controlPlaneType;
          c = newContext (GenerateClusterName gen cpName) (GenerateAuthInfoAdminName gen cpName)
      in CurrentContext r = GenerateContextName gen cpName
         \<and> Contexts r (GenerateContextName gen cpName) = Some c
         \<and> Cluster c = GenerateClusterName gen cpName
         \<and> AuthInfo c = GenerateAuthInfoAdminName gen cpName)"
  using assms
  by (auto simp: adjustConfigKeys_def newContext_def Let_def)

theorem adjustConfigKeys_upserts_context_witness:
  "CurrentContext
     (adjustConfigKeys sample_certs (NewConfig :: (nat, nat, unit) Config) ''cp1''
        ControlPlaneTypeOCM) = ''cp1''
   \<and> Contexts
     (adjustConfigKeys sample_certs (NewConfig :: (nat, nat, unit) Config) ''cp1''
        ControlPlaneTypeOCM) ''cp1'' =
     Some \<lparr>LocationOfOrigin = [], Cluster = ''cp1-cluster'', AuthInfo = ''cp1-admin'',
       Namespace = [], Extensions = Map.empty\<rparr>"
  using adjustConfigKeys_upserts_context
    [where controlPlaneType = ControlPlaneTypeOCM and gen = sample_certs
       and config = "NewConfig :: (nat, nat, unit) Config" and cpName = "''cp1''"]
  by (simp add: sample_certs_simps Let_def newContext_def)

text \<open>
  C4, as amended. For the two known control-plane types: if the generic key is present in
  the clusters (the auth infos), \<^verbatim>\<open>adjustConfigKeys\<close> removes it and stores its value under
  the generated cluster (auth info) name, and if it is absent that map is unchanged. The
  contexts go through the same rename and then always receive the freshly built context
  at the generated context name: the resulting contexts are the renamed contexts with that
  entry set. The function has no error result.
\<close>

theorem adjustConfigKeys_three_mappings:
  assumes "controlPlaneType = ControlPlaneTypeOCM \<or> controlPlaneType = ControlPlaneTypeVCluster"
  shows
    "Clusters (adjustConfigKeys gen config cpName controlPlaneType) =
       (case Clusters config (genericClusterKey controlPlaneType) of
          Some c \<Rightarrow> ((Clusters config)(genericClusterKey controlPlaneType := None))
                      (GenerateClusterName gen cpName \<mapsto> c)
        | None \<Rightarrow> Clusters config)
     \<and> AuthInfos (adjustConfigKeys gen config cpName controlPlaneType) =
       (case AuthInfos config (genericAuthInfoKey controlPlaneType) of
          Some a \<Rightarrow> ((AuthInfos config)(genericAuthInfoKey controlPlaneType := None))
                      (GenerateAuthInfoAdminName gen cpName \<mapsto> a)
        | None \<Rightarrow> AuthInfos config)
     \<and> Contexts (adjustConfigKeys gen config cpName controlPlaneType) =
       (case Contexts config (genericContextKey controlPlaneType) of
          Some x \<Rightarrow> ((Contexts config)(genericContextKey controlPlaneType := None))
                      (GenerateContextName gen cpName \<mapsto> x)
        | None \<Rightarrow> Contexts config)
       (GenerateContextName gen cpName \<mapsto>
          newContext (GenerateClusterName gen cpName) (GenerateAuthInfoAdminName gen cpName))"
  using assms
  by (auto simp: adjustConfigKeys_def renameKey_def genericClusterKey_def
      genericAuthInfoKey_def genericContextKey_def ControlPlaneType_simps
      split: option.splits)

theorem adjustConfigKeys_three_mappings_witness:
  "Clusters (adjustConfigKeys sample_certs sample_doc ''cp1'' ControlPlaneTypeVCluster) =
     [''cp1-cluster'' \<mapsto> 1]
   \<and> AuthInfos (adjustConfigKeys sample_certs sample_doc ''cp1'' ControlPlaneTypeVCluster) =
     [''cp1-admin'' \<mapsto> 2]
   \<and> Contexts (adjustConfigKeys sample_certs sample_doc ''cp1'' ControlPlaneTypeVCluster) =
     [''cp1'' \<mapsto> newContext ''cp1-cluster'' ''cp1-admin'']"
  using adjustConfigKeys_three_mappings
    [where controlPlaneType = ControlPlaneTypeVCluster and gen = sample_certs
       and config = sample_doc and cpName = "''cp1''"]
  by (simp add: sample_certs_simps sample_doc_def genericClusterKey_def
      genericAuthInfoKey_def genericContextKey_def ControlPlaneType_simps)

text \<open>
  The claim as first stated fails for the contexts: a document without the generic
  context key does not keep its contexts unchanged, it gains the generated entry.
\<close>

theorem adjustConfigKeys_contexts_changed_counterexample:
  "Contexts (NewConfig :: (nat, nat, unit) Config) ''my-vcluster'' = None
   \<and> Contexts (NewConfig :: (nat, nat, unit) Config) ''cp1'' = None
   \<and> Contexts
       (adjustConfigKeys sample_certs (NewConfig :: (nat, nat, unit) Config) ''cp1''
          ControlPlaneTypeVCluster) ''cp1'' =
     Some (newContext ''cp1-cluster'' ''cp1-admin'')"
  by (simp add: adjustConfigKeys_def NewConfig_def renameKey_def sample_certs_simps
      ControlPlaneType_simps)

text \<open>
  C5. For a control-plane type that is neither OCM nor VCluster, \<^verbatim>\<open>adjustConfigKeys\<close>
  returns the document it was given.
\<close>

theorem adjustConfigKeys_unknown_type:
  assumes "controlPlaneType \<noteq> ControlPlaneTypeOCM"
    and "controlPlaneType \<noteq> ControlPlaneTypeVCluster"
  shows "adjustConfigKeys gen config cpName controlPlaneType = config"
  using assms by (simp add: adjustConfigKeys_def)

theorem adjustConfigKeys_unknown_type_witness:
  "adjustConfigKeys sample_certs sample_doc ''cp1'' ''k8s'' = sample_doc"
  using adjustConfigKeys_unknown_type
    [where controlPlaneType = "''k8s''" and gen = sample_certs and config = sample_doc
       and cpName = "''cp1''"]
  by (simp add: ControlPlaneType_simps)


section \<open>Renaming onto an occupied key\<close>

text \<open>
  C10. When a map holds both the generic key and the target key, and the two differ,
  \<^verbatim>\<open>renameKey\<close> deletes the generic key and stores its value at the target key: the entry
  that was at the target key is gone, every other entry stays, and the map has one key
  less.
\<close>

theorem renameKey_overwrites_target:
  assumes "m oldKey = Some v" and "m newKey = Some w" and "oldKey \<noteq> newKey"
    and "finite (dom m)"
  shows "renameKey m oldKey newKey = (m(oldKey := None))(newKey \<mapsto> v)
       \<and> renameKey m oldKey newKey oldKey = None
       \<and> renameKey m oldKey newKey newKey = Some v
       \<and> dom (renameKey m oldKey newKey) = dom m - {oldKey}
       \<and> card (dom m) = Suc (card (dom (renameKey m oldKey newKey)))"
proof -
  have r: "renameKey m oldKey newKey = (m(oldKey := None))(newKey \<mapsto> v)"
    using assms(1) by (rule renameKey_present)
  have o: "renameKey m oldKey newKey oldKey = None"
    using assms(3) by (rule renameKey_old_gone)
  have n: "renameKey m oldKey newKey newKey = Some v"
    by (simp add: r)
  have d: "dom (renameKey m oldKey newKey) = dom m - {oldKey}"
    using assms(2,3) by (auto simp: r)
  have "oldKey \<in> dom m" using assms(1) by auto
  with assms(4) have "card (dom m) = Suc (card (dom m - {oldKey}))"
    by (rule card.remove)
  then have c: "card (dom m) = Suc (card (dom (renameKey m oldKey newKey)))"
    by (simp only: d)
  from r o n d c show ?thesis by blast
qed

theorem renameKey_overwrites_target_witness:
  "renameKey sample_clash ''my-vcluster'' ''cp1-cluster'' =
     [''cp1-cluster'' \<mapsto> 1, ''other'' \<mapsto> 3]
   \<and> card (dom sample_clash) = 3
   \<and> card (dom (renameKey sample_clash ''my-vcluster'' ''cp1-cluster'')) = 2"
proof -
  have 1: "sample_clash ''my-vcluster'' = Some 1" by (simp add: sample_clash_def)
  have 2: "sample_clash ''cp1-cluster'' = Some 2" by (simp add: sample_clash_def)
  have 3: "''my-vcluster'' \<noteq> ''cp1-cluster''" by simp
  have 4: "finite (dom sample_clash)" by (simp add: sample_clash_def)
  have 5: "card (dom sample_clash) = 3" by (simp add: sample_clash_def)
  note t = renameKey_overwrites_target [OF 1 2 3 4]
  from t have "renameKey sample_clash ''my-vcluster'' ''cp1-cluster'' =
      (sample_clash(''my-vcluster'' := None))(''cp1-cluster'' \<mapsto> 1)"
    by blast
  also have "\<dots> = [''cp1-cluster'' \<mapsto> 1, ''other'' \<mapsto> 3]"
    by (auto simp: sample_clash_def)
  finally have a: "renameKey sample_clash ''my-vcluster'' ''cp1-cluster'' =
      [''cp1-cluster'' \<mapsto> 1, ''other'' \<mapsto> 3]" .
  from t have "card (dom sample_clash) =
      Suc (card (dom (renameKey sample_clash ''my-vcluster'' ''cp1-cluster'')))"
    by blast
  with 5 have b: "card (dom (renameKey sample_clash ''my-vcluster'' ''cp1-cluster'')) = 2"
    by simp
  from a 5 b show ?thesis by blast
qed


section \<open>Merging\<close>

text \<open>
  C6. For every destination and source document, \<^verbatim>\<open>merge\<close> returns no error and, in each of
  the three maps, stores every entry of the source in the destination, over an entry of
  the same key if there is one, and keeps the destination's value at every key that the
  source does not hold; the destination's current context becomes the source's.
\<close>

theorem merge_contract:
  "(case merge existing new :: 'e option \<times> ('c, 'a, 'x) Config of
      (err, r) \<Rightarrow>
        err = None
        \<and> (\<forall>k v. Clusters new k = Some v \<longrightarrow> Clusters r k = Some v)
        \<and> (\<forall>k. Clusters new k = None \<longrightarrow> Clusters r k = Clusters existing k)
        \<and> (\<forall>k v. AuthInfos new k = Some v \<longrightarrow> AuthInfos r k = Some v)
        \<and> (\<forall>k. AuthInfos new k = None \<longrightarrow> AuthInfos r k = AuthInfos existing k)
        \<and> (\<forall>k v. Contexts new k = Some v \<longrightarrow> Contexts r k = Some v)
        \<and> (\<forall>k. Contexts new k = None \<longrightarrow> Contexts r k = Contexts existing k)
        \<and> CurrentContext r = CurrentContext new)"
  by (simp add: merge_def map_add_def)

theorem merge_contract_witness:
  "(case merge sample_aggregate sample_source :: string option \<times> (nat, nat, unit) Config of
      (err, r) \<Rightarrow>
        err = None
        \<and> Clusters r ''k1'' = Some 7
        \<and> Clusters r ''k2'' = Some 3
        \<and> AuthInfos r ''k1'' = Some 4
        \<and> Contexts r ''ctx-D'' = Some (newContext ''k1'' ''k1'')
        \<and> Contexts r ''ctx-S'' = Some (newContext ''k2'' ''k1'')
        \<and> CurrentContext r = ''ctx-S'')"
proof -
  obtain err :: "string option" and r where m: "merge sample_aggregate sample_source = (err, r)"
    by (cases "merge sample_aggregate sample_source :: string option \<times> (nat, nat, unit) Config")
      auto
  note t = merge_contract [where existing = sample_aggregate and new = sample_source
      and 'e = string, unfolded m prod.case]
  from t have 0: "err = None" by blast
  have "Clusters sample_source ''k1'' = None" by (simp add: sample_source_def)
  with t have 1: "Clusters r ''k1'' = Some 7" by (simp add: sample_aggregate_def)
  have "Clusters sample_source ''k2'' = Some 3" by (simp add: sample_source_def)
  with t have 2: "Clusters r ''k2'' = Some 3" by blast
  have "AuthInfos sample_source ''k1'' = Some 4" by (simp add: sample_source_def)
  with t have 3: "AuthInfos r ''k1'' = Some 4" by blast
  have "Contexts sample_source ''ctx-D'' = None" by (simp add: sample_source_def)
  with t have 4: "Contexts r ''ctx-D'' = Some (newContext ''k1'' ''k1'')"
    by (simp add: sample_aggregate_def)
  have "Contexts sample_source ''ctx-S'' = Some (newContext ''k2'' ''k1'')"
    by (simp add: sample_source_def)
  with t have 5: "Contexts r ''ctx-S'' = Some (newContext ''k2'' ''k1'')" by blast
  from t have 6: "CurrentContext r = ''ctx-S''" by (simp add: sample_source_def)
  from 0 1 2 3 4 5 6 show ?thesis by (simp add: m)
qed


section \<open>Errors of LoadAndMerge\<close>

lemma LoadAndMerge_fetch_error:
  assumes "Get (GenerateNamespaceFromControlPlaneName u name)
             (GetKubeconfSecretNameByControlPlaneType u controlPlaneType) = Inl err"
  shows "LoadAndMerge u gen Get Load LoadFromFile mrg WriteToFile name controlPlaneType fs =
         (Some err, fs)"
  using assms by (simp add: LoadAndMerge_def loadControlPlaneKubeconfig_def)

lemma LoadAndMerge_decode_error:
  assumes "Get (GenerateNamespaceFromControlPlaneName u name)
             (GetKubeconfSecretNameByControlPlaneType u controlPlaneType) = Inr ks"
    and "Load (case Data ks (GetKubeconfSecretKeyNameByControlPlaneType u controlPlaneType) of
                 Some b \<Rightarrow> b | None \<Rightarrow> []) = Inl err"
  shows "LoadAndMerge u gen Get Load LoadFromFile mrg WriteToFile name controlPlaneType fs =
         (Some err, fs)"
  using assms by (simp add: LoadAndMerge_def loadControlPlaneKubeconfig_def)

lemma LoadAndMerge_load_error:
  assumes "loadControlPlaneKubeconfig u Get Load name controlPlaneType = Inr cpKonfig"
    and "LoadFromFile fs = Inl err"
  shows "LoadAndMerge u gen Get Load LoadFromFile mrg WriteToFile name controlPlaneType fs =
         (Some err, fs)"
  using assms by (simp add: LoadAndMerge_def)

lemma LoadAndMerge_merge_error:
  assumes "loadControlPlaneKubeconfig u Get Load name controlPlaneType = Inr cpKonfig"
    and "LoadFromFile fs = Inr konfig"
    and "mrg konfig (adjustConfigKeys gen cpKonfig name controlPlaneType) = (Some err, konfig')"
  shows "LoadAndMerge u gen Get Load LoadFromFile mrg WriteToFile name controlPlaneType fs =
         (Some err, fs)"
  using assms by (simp add: LoadAndMerge_def)

lemma LoadAndMerge_success:
  assumes "loadControlPlaneKubeconfig u Get Load name controlPlaneType = Inr cpKonfig"
    and "LoadFromFile fs = Inr konfig"
    and "mrg konfig (adjustConfigKeys gen cpKonfig name controlPlaneType) = (None, konfig')"
  shows "LoadAndMerge u gen Get Load LoadFromFile mrg WriteToFile name controlPlaneType fs =
         WriteToFile konfig' fs"
  using assms by (simp add: LoadAndMerge_def)

lemma LoadAndMergeNoWrite_success:
  assumes "loadControlPlaneKubeconfig u Get Load name controlPlaneType = Inr cpKonfig"
  shows "LoadAndMergeNoWrite u gen Get Load mrg name controlPlaneType konfig =
         mrg konfig (adjustConfigKeys gen cpKonfig name controlPlaneType)"
  using assms by (simp add: LoadAndMergeNoWrite_def)

text \<open>
  C8. In \<^verbatim>\<open>LoadAndMerge\<close>, when the fetch of the secret, the decoding of its payload, the
  load of the aggregate or the merge fails, the call returns that error and leaves the
  backing file as it was: the result does not depend on the steps that would follow, and
  nothing is written.
\<close>

theorem LoadAndMerge_error_before_persist:
  "(Get (GenerateNamespaceFromControlPlaneName u name)
      (GetKubeconfSecretNameByControlPlaneType u controlPlaneType) = Inl err
    \<longrightarrow> LoadAndMerge u gen Get Load LoadFromFile mrg WriteToFile name controlPlaneType fs =
        (Some err, fs))
   \<and> (Get (GenerateNamespaceFromControlPlaneName u name)
        (GetKubeconfSecretNameByControlPlaneType u controlPlaneType) = Inr ks
      \<and> Load (case Data ks (GetKubeconfSecretKeyNameByControlPlaneType u controlPlaneType) of
                Some b \<Rightarrow> b | None \<Rightarrow> []) = Inl err
    \<longrightarrow> LoadAndMerge u gen Get Load LoadFromFile mrg WriteToFile name controlPlaneType fs =
        (Some err, fs))
   \<and> (loadControlPlaneKubeconfig u Get Load name controlPlaneType = Inr cpKonfig
      \<and> LoadFromFile fs = Inl err
    \<longrightarrow> LoadAndMerge u gen Get Load LoadFromFile mrg WriteToFile name controlPlaneType fs =
        (Some err, fs))
   \<and> (loadControlPlaneKubeconfig u Get Load name controlPlaneType = Inr cpKonfig
      \<and> LoadFromFile fs = Inr konfig
      \<and> mrg konfig (adjustConfigKeys gen cpKonfig name controlPlaneType) = (Some err, konfig')
    \<longrightarrow> LoadAndMerge u gen Get Load LoadFromFile mrg WriteToFile name controlPlaneType fs =
        (Some err, fs))"
proof (intro conjI impI)
  assume "Get (GenerateNamespaceFromControlPlaneName u name)
      (GetKubeconfSecretNameByControlPlaneType u controlPlaneType) = Inl err"
  then show "LoadAndMerge u gen Get Load LoadFromFile mrg WriteToFile name controlPlaneType fs =
      (Some err, fs)"
    by (rule LoadAndMerge_fetch_error)
next
  assume "Get (GenerateNamespaceFromControlPlaneName u name)
      (GetKubeconfSecretNameByControlPlaneType u controlPlaneType) = Inr ks
    \<and> Load (case Data ks (GetKubeconfSecretKeyNameByControlPlaneType u controlPlaneType) of
              Some b \<Rightarrow> b | None \<Rightarrow> []) = Inl err"
  then show "LoadAndMerge u gen Get Load LoadFromFile mrg WriteToFile name controlPlaneType fs =
      (Some err, fs)"
    by (elim conjE) (rule LoadAndMerge_decode_error)
next
  assume "loadControlPlaneKubeconfig u Get Load name controlPlaneType = Inr cpKonfig
    \<and> LoadFromFile fs = Inl err"
  then show "LoadAndMerge u gen Get Load LoadFromFile mrg WriteToFile name controlPlaneType fs =
      (Some err, fs)"
    by (elim conjE) (rule LoadAndMerge_load_error)
next
  assume "loadControlPlaneKubeconfig u Get Load name controlPlaneType = Inr cpKonfig
    \<and> LoadFromFile fs = Inr konfig
    \<and> mrg konfig (adjustConfigKeys gen cpKonfig name controlPlaneType) = (Some err, konfig')"
  then show "LoadAndMerge u gen Get Load LoadFromFile mrg WriteToFile name controlPlaneType fs =
      (Some err, fs)"
    by (elim conjE) (rule LoadAndMerge_merge_error)
qed

theorem LoadAndMerge_error_before_persist_witness:
  "LoadAndMerge sample_util sample_certs sample_Get (clientcmd_Load sample_decode)
     sample_LoadFromFile merge sample_WriteToFile ''cp0'' ControlPlaneTypeVCluster ''aggregate'' =
     (Some ''not found'', ''aggregate'')
   \<and> LoadAndMerge sample_util sample_certs sample_Get (clientcmd_Load sample_decode)
     sample_LoadFromFile merge sample_WriteToFile ''cp2'' ControlPlaneTypeVCluster ''aggregate'' =
     (Some ''decode error'', ''aggregate'')
   \<and> LoadAndMerge sample_util sample_certs sample_Get (clientcmd_Load sample_decode)
     sample_LoadFromFile merge sample_WriteToFile ''cp1'' ControlPlaneTypeVCluster ''missing'' =
     (Some ''no such file'', ''missing'')
   \<and> LoadAndMerge sample_util sample_certs sample_Get (clientcmd_Load sample_decode)
     sample_LoadFromFile failing_merge sample_WriteToFile ''cp1'' ControlPlaneTypeVCluster
     ''aggregate'' =
     (Some ''merge failed'', ''aggregate'')"
proof -
  have cp1: "loadControlPlaneKubeconfig sample_util sample_Get (clientcmd_Load sample_decode)
      ''cp1'' ControlPlaneTypeVCluster = Inr sample_doc"
    by (simp add: loadControlPlaneKubeconfig_def sample_Get_def sample_util_simps
        ControlPlaneType_simps secret_cp1_def clientcmd_Load_def sample_decode_def)
  have 1: "LoadAndMerge sample_util sample_certs sample_Get (clientcmd_Load sample_decode)
      sample_LoadFromFile merge sample_WriteToFile ''cp0'' ControlPlaneTypeVCluster ''aggregate'' =
      (Some ''not found'', ''aggregate'')"
    by (rule LoadAndMerge_error_before_persist [THEN conjunct1, THEN mp])
      (simp add: sample_Get_def sample_util_simps ControlPlaneType_simps)
  have 2: "LoadAndMerge sample_util sample_certs sample_Get (clientcmd_Load sample_decode)
      sample_LoadFromFile merge sample_WriteToFile ''cp2'' ControlPlaneTypeVCluster ''aggregate'' =
      (Some ''decode error'', ''aggregate'')"
    by (rule LoadAndMerge_error_before_persist
          [where ks = secret_cp2, THEN conjunct2, THEN conjunct1, THEN mp])
      (simp add: sample_Get_def sample_util_simps ControlPlaneType_simps secret_cp2_def
        clientcmd_Load_def sample_decode_def)
  have 3: "LoadAndMerge sample_util sample_certs sample_Get (clientcmd_Load sample_decode)
      sample_LoadFromFile merge sample_WriteToFile ''cp1'' ControlPlaneTypeVCluster ''missing'' =
      (Some ''no such file'', ''missing'')"
    by (rule LoadAndMerge_error_before_persist
          [where cpKonfig = sample_doc, THEN conjunct2, THEN conjunct2, THEN conjunct1, THEN mp])
      (simp add: cp1 sample_LoadFromFile_def)
  have 4: "LoadAndMerge sample_util sample_certs sample_Get (clientcmd_Load sample_decode)
      sample_LoadFromFile failing_merge sample_WriteToFile ''cp1'' ControlPlaneTypeVCluster
      ''aggregate'' =
      (Some ''merge failed'', ''aggregate'')"
    by (rule LoadAndMerge_error_before_persist
          [where cpKonfig = sample_doc and konfig = sample_aggregate
             and konfig' = sample_aggregate,
           THEN conjunct2, THEN conjunct2, THEN conjunct2, THEN mp])
      (simp add: cp1 sample_LoadFromFile_def failing_merge_def)
  from 1 2 3 4 show ?thesis by blast
qed


section \<open>A secret without the payload key\<close>

text \<open>
  C9, as amended. When the fetched secret does not hold the payload key of the
  control-plane type, \<^verbatim>\<open>loadControlPlaneKubeconfig\<close> makes no check of its own: it hands the
  empty byte slice to the decoder and returns the decoder's answer. With
  \<^verbatim>\<open>clientcmd.Load\<close>, which answers empty input with the empty document and no error, the
  call succeeds with the empty document.
\<close>

theorem loadControlPlaneKubeconfig_key_absent:
  assumes "Get (GenerateNamespaceFromControlPlaneName u name)
             (GetKubeconfSecretNameByControlPlaneType u controlPlaneType) = Inr ks"
    and "Data ks (GetKubeconfSecretKeyNameByControlPlaneType u controlPlaneType) = None"
  shows "loadControlPlaneKubeconfig u Get Load name controlPlaneType = Load []
       \<and> loadControlPlaneKubeconfig u Get (clientcmd_Load decode) name controlPlaneType =
           Inr NewConfig"
  using assms by (simp add: loadControlPlaneKubeconfig_def clientcmd_Load_def)

theorem loadControlPlaneKubeconfig_key_absent_witness:
  "loadControlPlaneKubeconfig sample_util sample_Get sample_decode ''cp3''
     ControlPlaneTypeVCluster = Inl ''decode error''
   \<and> loadControlPlaneKubeconfig sample_util sample_Get (clientcmd_Load sample_decode) ''cp3''
     ControlPlaneTypeVCluster = Inr NewConfig"
proof -
  have g: "sample_Get (GenerateNamespaceFromControlPlaneName sample_util ''cp3'')
      (GetKubeconfSecretNameByControlPlaneType sample_util ControlPlaneTypeVCluster) =
      Inr secret_cp3"
    by (simp add: sample_Get_def sample_util_simps ControlPlaneType_simps)
  have k: "Data secret_cp3
      (GetKubeconfSecretKeyNameByControlPlaneType sample_util ControlPlaneTypeVCluster) = None"
    by (simp add: secret_cp3_def sample_util_simps)
  from loadControlPlaneKubeconfig_key_absent
    [where Get = sample_Get and u = sample_util and name = "''cp3''"
       and controlPlaneType = ControlPlaneTypeVCluster and ks = secret_cp3
       and Load = sample_decode and decode = sample_decode, OF g k]
  show ?thesis by (simp add: sample_decode_def)
qed

text \<open>
  The claim as first stated fails: the secret of \<open>cp3\<close> lacks the payload key \<open>config\<close>,
  and the load succeeds.
\<close>

theorem loadControlPlaneKubeconfig_key_absent_counterexample:
  "sample_Get ''cp3-system'' ''vc-vcluster'' = Inr secret_cp3
   \<and> Data secret_cp3 ''config'' = None
   \<and> loadControlPlaneKubeconfig sample_util sample_Get (clientcmd_Load sample_decode) ''cp3''
     ControlPlaneTypeVCluster = Inr NewConfig"
  by (simp add: loadControlPlaneKubeconfig_def sample_Get_def sample_util_simps
      ControlPlaneType_simps secret_cp3_def clientcmd_Load_def)

end
